theory Spec2Isabelle
  imports Complex_Main
begin

section \<open>Numbers, vectors and matrices\<close>

text \<open>
  The engine computes on C++ \<open>double\<close> and on SimTK's \<open>Vec3\<close>, \<open>Mat33\<close> and \<open>Rotation\<close>.
  Here a \<open>double\<close> is a real number: rounding, infinities and NaN are outside this
  development, and every statement below is a statement of real arithmetic. In particular
  \<open>(total - trailing) + trailing = total\<close> holds of these vectors by algebra, which says
  nothing about the rounded difference and sum of the code; no statement below rests on it.
\<close>

datatype Vec3 = Vec3 (vx: real) (vy: real) (vz: real)

instantiation Vec3 :: "{zero, plus, minus}"
begin

definition zero_Vec3 :: Vec3 where
  "zero_Vec3 = Vec3 0 0 0"

definition plus_Vec3 :: "Vec3 \<Rightarrow> Vec3 \<Rightarrow> Vec3" where
  "plus_Vec3 u v = Vec3 (vx u + vx v) (vy u + vy v) (vz u + vz v)"

definition minus_Vec3 :: "Vec3 \<Rightarrow> Vec3 \<Rightarrow> Vec3" where
  "minus_Vec3 u v = Vec3 (vx u - vx v) (vy u - vy v) (vz u - vz v)"

instance ..

end

text \<open>\<open>s * v\<close> for a scalar \<open>s\<close>.\<close>

definition smul :: "real \<Rightarrow> Vec3 \<Rightarrow> Vec3" where
  "smul s v = Vec3 (s * vx v) (s * vy v) (s * vz v)"

definition dot :: "Vec3 \<Rightarrow> Vec3 \<Rightarrow> real" where
  "dot u v = vx u * vx v + vy u * vy v + vz u * vz v"

definition cross :: "Vec3 \<Rightarrow> Vec3 \<Rightarrow> Vec3" where
  "cross u v = Vec3 (vy u * vz v - vz u * vy v)
                    (vz u * vx v - vx u * vz v)
                    (vx u * vy v - vy u * vx v)"

definition vnorm :: "Vec3 \<Rightarrow> real" where
  "vnorm v = sqrt (dot v v)"

text \<open>A 3x3 matrix by its rows; \<open>Mat33 * Vec3\<close>.\<close>

datatype Mat33 = Mat33 (row0: Vec3) (row1: Vec3) (row2: Vec3)

definition mvmul :: "Mat33 \<Rightarrow> Vec3 \<Rightarrow> Vec3" where
  "mvmul A v = Vec3 (dot (row0 A) v) (dot (row1 A) v) (dot (row2 A) v)"

text \<open>
  \<open>SimTK::Rotation(q, Vec3(0, 1, 0))\<close>, the only rotation the engine builds: the rotation
  by the angle \<open>q\<close> about the vertical axis.
\<close>

definition Rotation_about_y :: "real \<Rightarrow> Mat33" where
  "Rotation_about_y a = Mat33 (Vec3 (cos a) 0 (sin a)) (Vec3 0 1 0) (Vec3 (- sin a) 0 (cos a))"

text \<open>
  Modelled from the spec: \<open>clip\<close> is declared in Utils.h, which is not among the sources.
  The spec has it clamp its first argument into the interval of the other two.
\<close>

definition clip :: "real \<Rightarrow> real \<Rightarrow> real \<Rightarrow> real" where
  "clip n lower upper = max lower (min n upper)"


section \<open>The transition functions of the constructor\<close>

text \<open>
  Both lambdas capture the engine by reference and read a member when they are called:
  \<open>reactionComponentTransition\<close> reads \<open>Tds\<close>, \<open>copPosition\<close> reads \<open>Tss\<close>. The member's
  value at the call is the first argument here. \<open>copScale\<close> is the local \<open>scale\<close> of
  \<open>copPosition\<close>.
\<close>

definition reactionComponentTransition :: "real \<Rightarrow> real \<Rightarrow> real" where
  "reactionComponentTransition tds t = clip (exp (- ((2 * t / tds) ^ 3))) 0 1"

definition copScale :: "real \<Rightarrow> real \<Rightarrow> real" where
  "copScale tss t =
     (let omega = 2 * pi / tss
      in clip (- 2 / (3 * pi) * (sin (omega * t) - sin (2 * omega * t) / 8 - 3 / 4 * omega * t)) 0 1)"

definition copPosition :: "real \<Rightarrow> real \<Rightarrow> Vec3 \<Rightarrow> Vec3" where
  "copPosition tss t d = smul (copScale tss t) d"


section \<open>Method selection\<close>

text \<open>
  \<open>SimTK::String::toLower\<close> applies \<open>std::tolower\<close> to every character: in the C locale
  the 26 capital letters map to their small letters and every other character is kept.
\<close>

definition upper_case :: string where
  "upper_case = ''ABCDEFGHIJKLMNOPQRSTUVWXYZ''"

definition lower_case :: string where
  "lower_case = ''abcdefghijklmnopqrstuvwxyz''"

definition tolower :: "char \<Rightarrow> char" where
  "tolower c = (case map_of (zip upper_case lower_case) c of Some l \<Rightarrow> l | None \<Rightarrow> c)"

definition toLower :: "string \<Rightarrow> string" where
  "toLower s = map tolower s"

datatype Method = NewtonEuler | InverseDynamics

text \<open>\<open>THROW_EXCEPTION(msg)\<close> throws; the exception is the left summand of the result.\<close>

datatype Exception = Exception string

definition validNENames :: "string list" where
  "validNENames = [''newtoneuler'', ''newton-euler'', ''newton_euler'', ''ne'']"

definition validIDNames :: "string list" where
  "validIDNames = [''inversedynamics'', ''inverse-dynamics'', ''inverse_dynamics'', ''id'']"

definition selectMethod :: "string \<Rightarrow> Exception + Method" where
  "selectMethod methodName =
     (if toLower methodName \<in> set validNENames then Inr NewtonEuler
      else if toLower methodName \<in> set validIDNames then Inr InverseDynamics
      else Inl (Exception ''Wrong input method. Select appropriate input name.''))"

text \<open>
  What "the same name up to case" means, said without \<open>toLower\<close>: the two strings have
  the same length and, position by position, the same character or the capital and the
  small form of one letter.
\<close>

definition same_letter :: "char \<Rightarrow> char \<Rightarrow> bool" where
  "same_letter a b =
     (a = b \<or> (a, b) \<in> set (zip upper_case lower_case) \<or> (b, a) \<in> set (zip upper_case lower_case))"

definition equal_ignoring_case :: "string \<Rightarrow> string \<Rightarrow> bool" where
  "equal_ignoring_case s n = list_all2 same_letter s n"


section \<open>The collaborators: gait-phase detector and multibody model\<close>

datatype GaitPhase = GaitPhase_INVALID | RIGHT_SWING | LEFT_SWING | DOUBLE_SUPPORT

datatype LeadingLeg = LeadingLeg_INVALID | RIGHT | LEFT

text \<open>
  \<open>solve\<close> only reads the detector, through its getters; a detector is the record of what
  the getters return during one call.
\<close>

record GaitPhaseDetector =
  isDetectorReady :: bool
  getPhase :: GaitPhase
  getLeadingLeg :: LeadingLeg
  getHeelStrikeTime :: real
  getToeOffTime :: real
  getDoubleSupportDuration :: real
  getSingleSupportDuration :: real

text \<open>A \<open>SpatialVec\<close> is a pair: element 0 the angular part, element 1 the linear part.\<close>

type_synonym SpatialVec = "Vec3 \<times> Vec3"

record Transform =
  Transform_R :: Mat33
  Transform_p :: Vec3

record Body =
  getName :: string
  getMass :: real
  getInertia :: Mat33
  getMobilizedBodyIndex :: nat

text \<open>
  OpenSim's \<open>Model\<close> and Simbody's subsystems are not part of the repository. The queries
  the engine makes are the fields of this record, over an arbitrary type \<open>'s\<close> of SimTK
  states; each is taken as a total function (a failure inside OpenSim, such as an unknown
  body name, is outside this development). A \<open>Vector_<SpatialVec>\<close> is read through its
  index function.
\<close>

record 's Model =
  updateState :: "'s \<Rightarrow> real list \<Rightarrow> real list \<Rightarrow> 's"
  realizeDynamics :: "'s \<Rightarrow> 's"
  getBody :: "string \<Rightarrow> Body"
  getBodySet :: "Body list"
  getGravity :: Vec3
  getBodyTransform :: "'s \<Rightarrow> nat \<Rightarrow> Transform"
  getMobilityForces :: "'s \<Rightarrow> real list"
  getRigidBodyForces :: "'s \<Rightarrow> nat \<Rightarrow> SpatialVec"
  calcResidualForceIgnoringConstraints ::
    "'s \<Rightarrow> real list \<Rightarrow> (nat \<Rightarrow> SpatialVec) \<Rightarrow> real list \<Rightarrow> real list"
  multiplyBySystemJacobian :: "'s \<Rightarrow> real list \<Rightarrow> nat \<Rightarrow> SpatialVec"
  calcBodyAccelerationFromUDot :: "'s \<Rightarrow> real list \<Rightarrow> nat \<Rightarrow> SpatialVec"

record Station =
  parent :: Body
  location :: Vec3

text \<open>
  Modelled from the spec: \<open>Station::getLocationInGround\<close> is OpenSim's. The spec derives
  the point from the body's current transform and the configured local offset: the
  transform of the parent body applied to the station's location.
\<close>

definition getLocationInGround :: "'s Model \<Rightarrow> 's \<Rightarrow> Station \<Rightarrow> Vec3" where
  "getLocationInGround M s st =
     (let X = getBodyTransform M s (getMobilizedBodyIndex (parent st))
      in mvmul (Transform_R X) (location st) + Transform_p X)"

definition transpose33 :: "Mat33 \<Rightarrow> Mat33" where
  "transpose33 A = Mat33 (Vec3 (vx (row0 A)) (vx (row1 A)) (vx (row2 A)))
                         (Vec3 (vy (row0 A)) (vy (row1 A)) (vy (row2 A)))
                         (Vec3 (vz (row0 A)) (vz (row1 A)) (vz (row2 A)))"

definition col0 :: "Mat33 \<Rightarrow> Vec3" where
  "col0 A = Vec3 (vx (row0 A)) (vx (row1 A)) (vx (row2 A))"

text \<open>
  Modelled from the spec: \<open>projectionOnPlane\<close> is declared in Utils.h, which is not among
  the sources. The spec has it remove from the point its component along the plane's
  normal.
\<close>

definition projectionOnPlane :: "Vec3 \<Rightarrow> Vec3 \<Rightarrow> Vec3 \<Rightarrow> Vec3" where
  "projectionOnPlane point planeOrigin planeNormal =
     point - smul (dot (point - planeOrigin) planeNormal) planeNormal"

text \<open>
  Modelled from the spec: the class of \<open>gaitDirectionBuffer\<close> is declared in Utils.h, which
  is not among the sources. The spec has a buffer of fixed capacity that keeps the most
  recent headings, and a mean over the headings it holds.
\<close>

record SlidingWindow =
  data :: "Vec3 list"
  capacity :: nat

definition insert_window :: "SlidingWindow \<Rightarrow> Vec3 \<Rightarrow> SlidingWindow" where
  "insert_window w x =
     w\<lparr>data := (if length (data w) < capacity w then data w else tl (data w)) @ [x]\<rparr>"

definition mean :: "SlidingWindow \<Rightarrow> Vec3" where
  "mean w = smul (1 / real (length (data w))) (foldl (+) 0 (data w))"


section \<open>The engine\<close>

record Parameters =
  "method" :: Method
  pelvisBodyName :: string
  rStationBodyName :: string
  lStationBodyName :: string
  rHeelStationLocation :: Vec3
  lHeelStationLocation :: Vec3
  rToeStationLocation :: Vec3
  lToeStationLocation :: Vec3
  directionWindowSize :: nat

record Input =
  Input_t :: real
  Input_q :: "real list"
  Input_qDot :: "real list"
  Input_qDDot :: "real list"

record ExternalWrench_Input =
  point :: Vec3
  force :: Vec3
  torque :: Vec3

record Output =
  Output_t :: real
  right :: ExternalWrench_Input
  left :: ExternalWrench_Input

text \<open>
  The members of \<open>GRFMPrediction\<close> that a call of \<open>solve\<close> reads or writes. The model and
  the detector are passed beside it.
\<close>

record 's GRFMPrediction =
  state :: 's
  parameters :: Parameters
  gaitDirectionBuffer :: SlidingWindow
  totalForceAtThs :: Vec3
  totalMomentAtThs :: Vec3
  Tds :: real
  Tss :: real

text \<open>The four stations the constructor adds to the model, from the parameters.\<close>

definition heelStationR :: "'s Model \<Rightarrow> Parameters \<Rightarrow> Station" where
  "heelStationR M P = \<lparr>parent = getBody M (rStationBodyName P), location = rHeelStationLocation P\<rparr>"

definition heelStationL :: "'s Model \<Rightarrow> Parameters \<Rightarrow> Station" where
  "heelStationL M P = \<lparr>parent = getBody M (lStationBodyName P), location = lHeelStationLocation P\<rparr>"

definition toeStationR :: "'s Model \<Rightarrow> Parameters \<Rightarrow> Station" where
  "toeStationR M P = \<lparr>parent = getBody M (rStationBodyName P), location = rToeStationLocation P\<rparr>"

definition toeStationL :: "'s Model \<Rightarrow> Parameters \<Rightarrow> Station" where
  "toeStationL M P = \<lparr>parent = getBody M (lStationBodyName P), location = lToeStationLocation P\<rparr>"

text \<open>
  \<open>computeTotalReactionComponents\<close>: the two totals are reference parameters; the pair of
  their values at entry is the last argument and the pair at exit is the result.
\<close>

definition computeTotalReactionComponents ::
  "'s Model \<Rightarrow> 's GRFMPrediction \<Rightarrow> Input \<Rightarrow> Vec3 \<times> Vec3 \<Rightarrow> Vec3 \<times> Vec3" where
  "computeTotalReactionComponents M E input totals =
     (if method (parameters E) = InverseDynamics then
        let appliedMobilityForces = getMobilityForces M (state E);
            appliedBodyForces = getRigidBodyForces M (state E);
            tau = calcResidualForceIgnoringConstraints M (state E) appliedMobilityForces
                    appliedBodyForces (Input_qDDot input);
            spatialGenForces = multiplyBySystemJacobian M (state E) tau;
            idx = getMobilizedBodyIndex (getBody M (pelvisBodyName (parameters E)))
        in (snd (spatialGenForces idx), fst (spatialGenForces idx))
      else if method (parameters E) = NewtonEuler then
        let bodyVelocities = multiplyBySystemJacobian M (state E) (Input_qDot input);
            bodyAccelerations = calcBodyAccelerationFromUDot M (state E) (Input_qDDot input)
        in fold (\<lambda>body (totalReactionForce, totalReactionMoment).
                   let bix = getMobilizedBodyIndex body;
                       I = getInertia body
                   in (totalReactionForce +
                         smul (getMass body) (snd (bodyAccelerations bix) - getGravity M),
                       totalReactionMoment +
                         (mvmul I (fst (bodyAccelerations bix)) +
                          cross (fst (bodyVelocities bix)) (mvmul I (fst (bodyVelocities bix))))))
                (getBodySet M) totals
      else totals)"

text \<open>
  \<open>computeGaitDirectionRotation\<close> returns the rotation and appends to the buffer. Where
  \<open>dotProd\<close> is 0 the C++ quotient is an infinity or NaN and the HOL quotient is 0; no
  statement below depends on the angle.
\<close>

definition computeGaitDirectionRotation ::
  "'s Model \<Rightarrow> 's GRFMPrediction \<Rightarrow> string \<Rightarrow> Mat33 \<times> 's GRFMPrediction" where
  "computeGaitDirectionRotation M E bodyName =
     (let body = getBody M bodyName;
          R_GB = Transform_R (getBodyTransform M (state E) (getMobilizedBodyIndex body));
          buffer = insert_window (gaitDirectionBuffer E) (col0 (transpose33 R_GB));
          gaitDirection = projectionOnPlane (mean buffer) (Vec3 0 0 0) (Vec3 0 1 0);
          crossProd = cross gaitDirection (Vec3 1 0 0);
          dotProd = dot gaitDirection (Vec3 1 0 0);
          q = arctan (vnorm crossProd / dotProd)
      in (Rotation_about_y q, E\<lparr>gaitDirectionBuffer := buffer\<rparr>))"

text \<open>
  \<open>seperateReactionComponents\<close> writes its two results through references and, for an
  invalid leading leg, writes a line to \<open>cerr\<close> and leaves both untouched. The values the
  two references hold at entry are the last two arguments; the result is the pair at exit
  and the lines written to \<open>cerr\<close>.
\<close>

definition seperateReactionComponents ::
  "GaitPhaseDetector \<Rightarrow> real \<Rightarrow> Vec3 \<Rightarrow> Vec3 \<Rightarrow> (real \<Rightarrow> real) \<Rightarrow> (real \<Rightarrow> real) \<Rightarrow>
   (real \<Rightarrow> real) \<Rightarrow> Vec3 \<Rightarrow> Vec3 \<Rightarrow> Vec3 \<times> Vec3 \<times> string list" where
  "seperateReactionComponents det time totalReactionComponent totalReactionAtThs
       anteriorComponentFunction verticalComponentFunction lateralComponentFunction
       rightReactionComponent leftReactionComponent =
     (case getPhase det of
        DOUBLE_SUPPORT \<Rightarrow>
          let trailingReactionComponent =
                Vec3 (vx totalReactionAtThs * anteriorComponentFunction time)
                     (vy totalReactionAtThs * verticalComponentFunction time)
                     (vz totalReactionAtThs * lateralComponentFunction time);
              leadingReactionComponent = totalReactionComponent - trailingReactionComponent
          in (case getLeadingLeg det of
                RIGHT \<Rightarrow> (leadingReactionComponent, trailingReactionComponent, [])
              | LEFT \<Rightarrow> (trailingReactionComponent, leadingReactionComponent, [])
              | LeadingLeg_INVALID \<Rightarrow>
                  (rightReactionComponent, leftReactionComponent,
                   [''STA: invalid LeadingLeg state!'']))
      | LEFT_SWING \<Rightarrow> (totalReactionComponent, Vec3 0 0 0, [])
      | RIGHT_SWING \<Rightarrow> (Vec3 0 0 0, totalReactionComponent, [])
      | GaitPhase_INVALID \<Rightarrow> (Vec3 0 0 0, Vec3 0 0 0, []))"

text \<open>
  \<open>computeReactionPoint\<close>, in the same way; it also stores the detector's single-support
  duration in \<open>Tss\<close>, which \<open>copPosition\<close> then reads.
\<close>

definition computeReactionPoint ::
  "'s Model \<Rightarrow> GaitPhaseDetector \<Rightarrow> 's GRFMPrediction \<Rightarrow> real \<Rightarrow> Vec3 \<Rightarrow> Vec3 \<Rightarrow>
   Vec3 \<times> Vec3 \<times> 's GRFMPrediction \<times> string list" where
  "computeReactionPoint M det E0 t rightPoint leftPoint =
     (let E = E0\<lparr>Tss := getSingleSupportDuration det\<rparr>;
          P = parameters E
      in case getPhase det of
           DOUBLE_SUPPORT \<Rightarrow>
             (case getLeadingLeg det of
                RIGHT \<Rightarrow> (getLocationInGround M (state E) (heelStationR M P),
                          getLocationInGround M (state E) (toeStationL M P), E, [])
              | LEFT \<Rightarrow> (getLocationInGround M (state E) (toeStationR M P),
                         getLocationInGround M (state E) (heelStationL M P), E, [])
              | LeadingLeg_INVALID \<Rightarrow>
                  (rightPoint, leftPoint, E, [''CoP: invalid LeadingLeg state!'']))
         | LEFT_SWING \<Rightarrow>
             let d = getLocationInGround M (state E) (toeStationR M P) -
                     getLocationInGround M (state E) (heelStationR M P);
                 time = t - getToeOffTime det
             in (getLocationInGround M (state E) (heelStationR M P) + copPosition (Tss E) time d,
                 Vec3 0 0 0, E, [])
         | RIGHT_SWING \<Rightarrow>
             let d = getLocationInGround M (state E) (toeStationL M P) -
                     getLocationInGround M (state E) (heelStationL M P);
                 time = t - getToeOffTime det
             in (Vec3 0 0 0,
                 getLocationInGround M (state E) (heelStationL M P) + copPosition (Tss E) time d,
                 E, [])
         | GaitPhase_INVALID \<Rightarrow> (Vec3 0 0 0, Vec3 0 0 0, E, []))"


text \<open>
  \<open>solve\<close> declares six \<open>Vec3\<close> locals without an initialiser and passes them by reference
  to the functions that fill them. SimTK's default constructor leaves a \<open>Vec3\<close> unset (NaN
  in a debug build), so what the locals hold before they are filled is not fixed by the
  source: it is the argument \<open>locals\<close>.
\<close>

record Locals =
  rightReactionForce :: Vec3
  leftReactionForce :: Vec3
  rightReactionMoment :: Vec3
  leftReactionMoment :: Vec3
  rightPoint :: Vec3
  leftPoint :: Vec3

text \<open>
  \<open>solve\<close> returns the output; the engine after the call and the lines written to \<open>cerr\<close>
  are returned with it.
\<close>

definition solve ::
  "'s Model \<Rightarrow> GaitPhaseDetector \<Rightarrow> 's GRFMPrediction \<Rightarrow> Input \<Rightarrow> Locals \<Rightarrow>
   Output \<times> 's GRFMPrediction \<times> string list" where
  "solve M det E input locals =
     (let output = \<lparr>Output_t = Input_t input,
                     right = \<lparr>point = Vec3 0 0 0, force = Vec3 0 0 0, torque = Vec3 0 0 0\<rparr>,
                     left = \<lparr>point = Vec3 0 0 0, force = Vec3 0 0 0, torque = Vec3 0 0 0\<rparr>\<rparr>
      in if isDetectorReady det then
           let E1 = E\<lparr>state := realizeDynamics M
                                   (updateState M (state E) (Input_q input) (Input_qDot input))\<rparr>;
               (R, E2) = computeGaitDirectionRotation M E1 (pelvisBodyName (parameters E1));
               (totalReactionForce0, totalReactionMoment0) =
                  computeTotalReactionComponents M E2 input (Vec3 0 0 0, Vec3 0 0 0);
               totalReactionForce = mvmul R totalReactionForce0;
               totalReactionMoment = mvmul R totalReactionMoment0;
               time = Input_t input - getHeelStrikeTime det;
               E3 = (if time = 0
                     then E2\<lparr>totalForceAtThs := totalReactionForce,
                             totalMomentAtThs := totalReactionMoment\<rparr>
                     else E2);
               E4 = E3\<lparr>Tds := getDoubleSupportDuration det\<rparr>;
               (rightForce, leftForce, err1) =
                  seperateReactionComponents det time totalReactionForce (totalForceAtThs E4)
                    (reactionComponentTransition (Tds E4)) (reactionComponentTransition (Tds E4))
                    (reactionComponentTransition (Tds E4))
                    (rightReactionForce locals) (leftReactionForce locals);
               (rightMoment, leftMoment, err2) =
                  seperateReactionComponents det time totalReactionMoment (totalMomentAtThs E4)
                    (reactionComponentTransition (Tds E4)) (reactionComponentTransition (Tds E4))
                    (reactionComponentTransition (Tds E4))
                    (rightReactionMoment locals) (leftReactionMoment locals);
               (rightCoP, leftCoP, E5, err3) =
                  computeReactionPoint M det E4 (Input_t input) (rightPoint locals) (leftPoint locals)
           in (output\<lparr>right := \<lparr>point = rightCoP, force = rightForce, torque = rightMoment\<rparr>,
                      left := \<lparr>point = leftCoP, force = leftForce, torque = leftMoment\<rparr>\<rparr>,
               E5, err1 @ err2 @ err3)
         else (output, E, []))"

text \<open>
  Names for three values inside a call of \<open>solve\<close> whose detector is ready: the model
  state after \<open>updateState\<close> and \<open>realizeDynamics\<close>, and the total reaction force and moment
  after the rotation into the heading frame.
\<close>

definition solve_state :: "'s Model \<Rightarrow> 's GRFMPrediction \<Rightarrow> Input \<Rightarrow> 's" where
  "solve_state M E input =
     realizeDynamics M (updateState M (state E) (Input_q input) (Input_qDot input))"

definition solve_totalReaction :: "'s Model \<Rightarrow> 's GRFMPrediction \<Rightarrow> Input \<Rightarrow> Vec3 \<times> Vec3" where
  "solve_totalReaction M E input =
     (let E1 = E\<lparr>state := solve_state M E input\<rparr>;
          (R, E2) = computeGaitDirectionRotation M E1 (pelvisBodyName (parameters E1));
          (totalReactionForce0, totalReactionMoment0) =
             computeTotalReactionComponents M E2 input (Vec3 0 0 0, Vec3 0 0 0)
      in (mvmul R totalReactionForce0, mvmul R totalReactionMoment0))"

definition solve_totalReactionForce :: "'s Model \<Rightarrow> 's GRFMPrediction \<Rightarrow> Input \<Rightarrow> Vec3" where
  "solve_totalReactionForce M E input = fst (solve_totalReaction M E input)"

definition solve_totalReactionMoment :: "'s Model \<Rightarrow> 's GRFMPrediction \<Rightarrow> Input \<Rightarrow> Vec3" where
  "solve_totalReactionMoment M E input = snd (solve_totalReaction M E input)"


section \<open>A concrete engine\<close>

text \<open>
  A model with one body at the origin of the ground frame, whose pelvis carries the wrench
  (force \<open>(10, 100, 0)\<close>, moment \<open>(0, 0, 1)\<close>), and an engine on it.
\<close>

definition identity33 :: Mat33 where
  "identity33 = Mat33 (Vec3 1 0 0) (Vec3 0 1 0) (Vec3 0 0 1)"

definition demo_body :: "string \<Rightarrow> Body" where
  "demo_body n = \<lparr>getName = n, getMass = 1, getInertia = identity33, getMobilizedBodyIndex = 0\<rparr>"

definition demo_model :: "unit Model" where
  "demo_model =
     \<lparr>updateState = (\<lambda>s q qDot. s),
      realizeDynamics = (\<lambda>s. s),
      getBody = demo_body,
      getBodySet = [demo_body ''pelvis''],
      getGravity = Vec3 0 (- 10) 0,
      getBodyTransform = (\<lambda>s i. \<lparr>Transform_R = identity33, Transform_p = Vec3 0 0 0\<rparr>),
      getMobilityForces = (\<lambda>s. []),
      getRigidBodyForces = (\<lambda>s i. (Vec3 0 0 0, Vec3 0 0 0)),
      calcResidualForceIgnoringConstraints = (\<lambda>s f F a. []),
      multiplyBySystemJacobian = (\<lambda>s v i. (Vec3 0 0 1, Vec3 10 100 0)),
      calcBodyAccelerationFromUDot = (\<lambda>s a i. (Vec3 0 0 0, Vec3 0 0 0))\<rparr>"

definition demo_parameters :: Parameters where
  "demo_parameters =
     \<lparr>method = InverseDynamics, pelvisBodyName = ''pelvis'',
      rStationBodyName = ''calcn_r'', lStationBodyName = ''calcn_l'',
      rHeelStationLocation = Vec3 0 0 1, lHeelStationLocation = Vec3 0 0 (- 1),
      rToeStationLocation = Vec3 2 0 1, lToeStationLocation = Vec3 2 0 (- 1),
      directionWindowSize = 2\<rparr>"

definition demo_engine :: "unit GRFMPrediction" where
  "demo_engine =
     \<lparr>state = (), parameters = demo_parameters,
      gaitDirectionBuffer = \<lparr>data = [], capacity = 2\<rparr>,
      totalForceAtThs = Vec3 5 50 0, totalMomentAtThs = Vec3 0 0 0,
      Tds = 1, Tss = 1\<rparr>"

definition demo_input :: Input where
  "demo_input = \<lparr>Input_t = 1, Input_q = [], Input_qDot = [], Input_qDDot = []\<rparr>"

definition demo_locals :: Locals where
  "demo_locals =
     \<lparr>rightReactionForce = Vec3 1 2 3, leftReactionForce = Vec3 4 5 6,
      rightReactionMoment = Vec3 7 8 9, leftReactionMoment = Vec3 1 1 1,
      rightPoint = Vec3 2 2 2, leftPoint = Vec3 3 3 3\<rparr>"

text \<open>
  A detector whose last heel strike is at the time of \<open>demo_input\<close>, whose last toe-off is
  1/5 before it, and whose durations are 1/5 (double support) and 2/5 (single support).
\<close>

definition demo_detector :: "bool \<Rightarrow> GaitPhase \<Rightarrow> LeadingLeg \<Rightarrow> GaitPhaseDetector" where
  "demo_detector ready phase leg =
     \<lparr>isDetectorReady = ready, getPhase = phase, getLeadingLeg = leg,
      getHeelStrikeTime = 1, getToeOffTime = 4 / 5,
      getDoubleSupportDuration = 1 / 5, getSingleSupportDuration = 2 / 5\<rparr>"


section \<open>Properties\<close>

subsection \<open>Vectors, the concrete engine, and lemmas shared by the proofs\<close>

lemmas vec_defs = zero_Vec3_def plus_Vec3_def minus_Vec3_def smul_def dot_def cross_def vnorm_def
  mvmul_def

lemma clip_unit_interval: "0 \<le> clip x 0 1 \<and> clip x 0 1 \<le> 1"
  by (simp add: clip_def)

lemma transition_at_0: "tds \<noteq> 0 \<Longrightarrow> reactionComponentTransition tds 0 = 1"
  by (simp add: reactionComponentTransition_def clip_def)

lemma transition_tendsto_0:
  assumes pos: "0 < tds"
  shows "(reactionComponentTransition tds \<longlongrightarrow> 0) at_top"
proof -
  have "LIM t at_top. (2 / tds) * t :> at_top"
    using pos by (intro filterlim_tendsto_pos_mult_at_top [OF tendsto_const] filterlim_ident) simp
  then have "LIM t at_top. 2 * t / tds :> at_top"
    by simp
  then have "LIM t at_top. (2 * t / tds) ^ 3 :> at_top"
    by (intro filterlim_pow_at_top) simp_all
  then have "LIM t at_top. - ((2 * t / tds) ^ 3) :> at_bot"
    by (simp add: filterlim_uminus_at_top [symmetric])
  then have "((\<lambda>t. exp (- ((2 * t / tds) ^ 3))) \<longlongrightarrow> 0) at_top"
    by (rule filterlim_compose [OF exp_at_bot])
  then have "((\<lambda>t. max 0 (min (exp (- ((2 * t / tds) ^ 3))) 1)) \<longlongrightarrow> max 0 (min 0 1)) at_top"
    by (intro tendsto_max tendsto_min tendsto_const)
  then show ?thesis
    by (simp add: reactionComponentTransition_def [abs_def] clip_def)
qed

lemma demo_model_simps:
  "updateState demo_model = (\<lambda>s q qDot. s)" "realizeDynamics demo_model = (\<lambda>s. s)"
  "getBody demo_model = demo_body"
  "getBodyTransform demo_model =
     (\<lambda>s i. \<lparr>Transform_R = identity33, Transform_p = Vec3 0 0 0\<rparr>)"
  "getMobilityForces demo_model = (\<lambda>s. [])"
  "getRigidBodyForces demo_model = (\<lambda>s i. (Vec3 0 0 0, Vec3 0 0 0))"
  "calcResidualForceIgnoringConstraints demo_model = (\<lambda>s f F a. [])"
  "multiplyBySystemJacobian demo_model = (\<lambda>s v i. (Vec3 0 0 1, Vec3 10 100 0))"
  by (simp_all add: demo_model_def)

lemma demo_engine_simps:
  "parameters demo_engine = demo_parameters"
  "gaitDirectionBuffer demo_engine = \<lparr>data = [], capacity = 2\<rparr>"
  by (simp_all add: demo_engine_def)

lemma demo_parameters_simps:
  "method demo_parameters = InverseDynamics" "pelvisBodyName demo_parameters = ''pelvis''"
  "rStationBodyName demo_parameters = ''calcn_r''" "lStationBodyName demo_parameters = ''calcn_l''"
  "rHeelStationLocation demo_parameters = Vec3 0 0 1"
  "lHeelStationLocation demo_parameters = Vec3 0 0 (- 1)"
  "rToeStationLocation demo_parameters = Vec3 2 0 1"
  "lToeStationLocation demo_parameters = Vec3 2 0 (- 1)"
  by (simp_all add: demo_parameters_def)

lemma demo_detector_simps:
  "isDetectorReady (demo_detector r p l) = r" "getPhase (demo_detector r p l) = p"
  "getLeadingLeg (demo_detector r p l) = l" "getHeelStrikeTime (demo_detector r p l) = 1"
  "getToeOffTime (demo_detector r p l) = 4 / 5"
  "getDoubleSupportDuration (demo_detector r p l) = 1 / 5"
  "getSingleSupportDuration (demo_detector r p l) = 2 / 5"
  by (simp_all add: demo_detector_def)

lemma demo_rotation:
  "fst (computeGaitDirectionRotation demo_model (demo_engine\<lparr>state := s\<rparr>) ''pelvis'') =
     identity33"
  by (simp add: computeGaitDirectionRotation_def Let_def demo_model_simps demo_engine_simps
      demo_body_def identity33_def vec_defs insert_window_def mean_def transpose33_def col0_def
      projectionOnPlane_def Rotation_about_y_def)

lemma demo_totalReaction:
  "solve_totalReaction demo_model demo_engine demo_input = (Vec3 10 100 0, Vec3 0 0 1)"
proof -
  have "computeTotalReactionComponents demo_model E demo_input (Vec3 0 0 0, Vec3 0 0 0) =
          (Vec3 10 100 0, Vec3 0 0 1)" if "parameters E = demo_parameters" for E
    using that
    by (simp add: computeTotalReactionComponents_def Let_def demo_model_simps
        demo_parameters_simps)
  moreover have "parameters (snd (computeGaitDirectionRotation demo_model
      (demo_engine\<lparr>state := s\<rparr>) ''pelvis'')) = demo_parameters" for s
    by (simp add: computeGaitDirectionRotation_def Let_def demo_engine_simps)
  ultimately show ?thesis
    using demo_rotation
    by (simp add: solve_totalReaction_def split_def demo_engine_simps demo_parameters_simps
        identity33_def mvmul_def dot_def)
qed

lemma demo_stations:
  "getLocationInGround demo_model s (heelStationR demo_model demo_parameters) = Vec3 0 0 1"
  "getLocationInGround demo_model s (toeStationR demo_model demo_parameters) = Vec3 2 0 1"
  "getLocationInGround demo_model s (heelStationL demo_model demo_parameters) = Vec3 0 0 (- 1)"
  "getLocationInGround demo_model s (toeStationL demo_model demo_parameters) = Vec3 2 0 (- 1)"
  by (simp_all add: getLocationInGround_def heelStationR_def heelStationL_def toeStationR_def
      toeStationL_def Let_def demo_model_simps demo_parameters_simps identity33_def vec_defs)

text \<open>Half way through a single support of 2/5 the progress factor is 1/2.\<close>

lemma demo_copScale: "copScale (2 / 5) (1 / 5) = 1 / 2"
  by (simp add: copScale_def Let_def clip_def)

text \<open>
  A station in ground, written out: the current transform of the foot body applied to the
  configured offset.
\<close>

lemma station_in_ground:
  "getLocationInGround M s (heelStationR M P) =
     mvmul (Transform_R (getBodyTransform M s (getMobilizedBodyIndex (getBody M (rStationBodyName P)))))
       (rHeelStationLocation P) +
     Transform_p (getBodyTransform M s (getMobilizedBodyIndex (getBody M (rStationBodyName P))))"
  "getLocationInGround M s (toeStationR M P) =
     mvmul (Transform_R (getBodyTransform M s (getMobilizedBodyIndex (getBody M (rStationBodyName P)))))
       (rToeStationLocation P) +
     Transform_p (getBodyTransform M s (getMobilizedBodyIndex (getBody M (rStationBodyName P))))"
  "getLocationInGround M s (heelStationL M P) =
     mvmul (Transform_R (getBodyTransform M s (getMobilizedBodyIndex (getBody M (lStationBodyName P)))))
       (lHeelStationLocation P) +
     Transform_p (getBodyTransform M s (getMobilizedBodyIndex (getBody M (lStationBodyName P))))"
  "getLocationInGround M s (toeStationL M P) =
     mvmul (Transform_R (getBodyTransform M s (getMobilizedBodyIndex (getBody M (lStationBodyName P)))))
       (lToeStationLocation P) +
     Transform_p (getBodyTransform M s (getMobilizedBodyIndex (getBody M (lStationBodyName P))))"
  by (simp_all add: getLocationInGround_def heelStationR_def toeStationR_def heelStationL_def
      toeStationL_def Let_def)

lemmas solve_defs = solve_def solve_totalReactionForce_def solve_totalReactionMoment_def
  solve_totalReaction_def solve_state_def Let_def split_def

lemma rotation_keeps:
  "state (snd (computeGaitDirectionRotation M E n)) = state E"
  "parameters (snd (computeGaitDirectionRotation M E n)) = parameters E"
  "totalForceAtThs (snd (computeGaitDirectionRotation M E n)) = totalForceAtThs E"
  "totalMomentAtThs (snd (computeGaitDirectionRotation M E n)) = totalMomentAtThs E"
  by (simp_all add: computeGaitDirectionRotation_def Let_def)

lemma reaction_point_keeps:
  "totalForceAtThs (fst (snd (snd (computeReactionPoint M det E t r l)))) = totalForceAtThs E"
  "totalMomentAtThs (fst (snd (snd (computeReactionPoint M det E t r l)))) = totalMomentAtThs E"
  by (simp_all add: computeReactionPoint_def Let_def split: GaitPhase.splits LeadingLeg.splits)

lemma solve_invalid_leading_leg:
  assumes "isDetectorReady det" and "getPhase det = DOUBLE_SUPPORT"
    and "getLeadingLeg det = LeadingLeg_INVALID"
  shows "fst (solve M det E input locals) =
           \<lparr>Output_t = Input_t input,
            right = \<lparr>point = rightPoint locals, force = rightReactionForce locals,
                     torque = rightReactionMoment locals\<rparr>,
            left = \<lparr>point = leftPoint locals, force = leftReactionForce locals,
                    torque = leftReactionMoment locals\<rparr>\<rparr>"
    and "snd (snd (solve M det E input locals)) =
           [''STA: invalid LeadingLeg state!'', ''STA: invalid LeadingLeg state!'',
            ''CoP: invalid LeadingLeg state!'']"
  using assms
  by (simp_all add: solve_def seperateReactionComponents_def computeReactionPoint_def Let_def
      split_def)

lemma computeReactionPoint_cong:
  assumes "state E = state E'" and "parameters E = parameters E'"
  shows "fst (computeReactionPoint M det E t r l) = fst (computeReactionPoint M det E' t r l)"
    and "fst (snd (computeReactionPoint M det E t r l)) =
         fst (snd (computeReactionPoint M det E' t r l))"
  using assms
  by (simp_all add: computeReactionPoint_def Let_def split: GaitPhase.splits LeadingLeg.splits)

lemma solve_ready_points:
  assumes "isDetectorReady det"
  shows "point (right (fst (solve M det E input locals))) =
           fst (computeReactionPoint M det (E\<lparr>state := solve_state M E input\<rparr>) (Input_t input)
                  (rightPoint locals) (leftPoint locals))"
    and "point (left (fst (solve M det E input locals))) =
           fst (snd (computeReactionPoint M det (E\<lparr>state := solve_state M E input\<rparr>)
                  (Input_t input) (rightPoint locals) (leftPoint locals)))"
  using assms
   apply (simp_all add: solve_defs split del: if_split)
   apply (rule computeReactionPoint_cong; simp add: rotation_keeps)
  apply (rule computeReactionPoint_cong; simp add: rotation_keeps)
  done

lemma solve_latch:
  assumes "isDetectorReady det" and "Input_t input = getHeelStrikeTime det"
  shows "totalForceAtThs (fst (snd (solve M det E input locals))) =
           solve_totalReactionForce M E input"
    and "totalMomentAtThs (fst (snd (solve M det E input locals))) =
           solve_totalReactionMoment M E input"
  using assms by (simp_all add: solve_defs reaction_point_keeps)

lemma solve_trailing_at_heel_strike:
  assumes "isDetectorReady det" and "Input_t input = getHeelStrikeTime det"
    and "getPhase det = DOUBLE_SUPPORT" and "getDoubleSupportDuration det \<noteq> 0"
  shows "getLeadingLeg det = RIGHT \<Longrightarrow>
           force (left (fst (solve M det E input locals))) = solve_totalReactionForce M E input \<and>
           torque (left (fst (solve M det E input locals))) = solve_totalReactionMoment M E input"
    and "getLeadingLeg det = LEFT \<Longrightarrow>
           force (right (fst (solve M det E input locals))) = solve_totalReactionForce M E input \<and>
           torque (right (fst (solve M det E input locals))) = solve_totalReactionMoment M E input"
  using assms by (simp_all add: solve_defs seperateReactionComponents_def transition_at_0)


subsection \<open>Double support\<close>

text \<open>
  Claim C2, as amended. In a call of \<open>solve\<close> whose detector is ready, in double support,
  the centre of pressure of the leading leg is that leg's heel station in ground and the
  centre of pressure of the trailing leg is that leg's toe station in ground, both located
  with the model state of this call.
\<close>

theorem double_support_cop:
  assumes "isDetectorReady det" and "getPhase det = DOUBLE_SUPPORT"
  shows "(getLeadingLeg det = RIGHT \<longrightarrow>
            point (right (fst (solve M det E input locals))) =
              getLocationInGround M (solve_state M E input) (heelStationR M (parameters E)) \<and>
            point (left (fst (solve M det E input locals))) =
              getLocationInGround M (solve_state M E input) (toeStationL M (parameters E))) \<and>
         (getLeadingLeg det = LEFT \<longrightarrow>
            point (left (fst (solve M det E input locals))) =
              getLocationInGround M (solve_state M E input) (heelStationL M (parameters E)) \<and>
            point (right (fst (solve M det E input locals))) =
              getLocationInGround M (solve_state M E input) (toeStationR M (parameters E)))"
  using assms by (simp add: solve_defs computeReactionPoint_def rotation_keeps)

theorem double_support_cop_witness:
  "(isDetectorReady (demo_detector True DOUBLE_SUPPORT RIGHT) \<and>
    getPhase (demo_detector True DOUBLE_SUPPORT RIGHT) = DOUBLE_SUPPORT \<and>
    getLeadingLeg (demo_detector True DOUBLE_SUPPORT RIGHT) = RIGHT \<and>
    point (right (fst (solve demo_model (demo_detector True DOUBLE_SUPPORT RIGHT) demo_engine
       demo_input demo_locals))) = Vec3 0 0 1 \<and>
    point (left (fst (solve demo_model (demo_detector True DOUBLE_SUPPORT RIGHT) demo_engine
       demo_input demo_locals))) = Vec3 2 0 (- 1)) \<and>
   (isDetectorReady (demo_detector True DOUBLE_SUPPORT LEFT) \<and>
    getPhase (demo_detector True DOUBLE_SUPPORT LEFT) = DOUBLE_SUPPORT \<and>
    getLeadingLeg (demo_detector True DOUBLE_SUPPORT LEFT) = LEFT \<and>
    point (left (fst (solve demo_model (demo_detector True DOUBLE_SUPPORT LEFT) demo_engine
       demo_input demo_locals))) = Vec3 0 0 (- 1) \<and>
    point (right (fst (solve demo_model (demo_detector True DOUBLE_SUPPORT LEFT) demo_engine
       demo_input demo_locals))) = Vec3 2 0 1)"
  using double_support_cop [of "demo_detector True DOUBLE_SUPPORT RIGHT" demo_model demo_engine
      demo_input demo_locals]
    double_support_cop [of "demo_detector True DOUBLE_SUPPORT LEFT" demo_model demo_engine
      demo_input demo_locals]
  by (simp add: demo_detector_simps demo_stations demo_engine_simps)

text \<open>
  The claim as stated puts the leading leg on its toe station: with the right leg leading,
  the right centre of pressure is the right heel station, which here is not the toe
  station.
\<close>

theorem double_support_cop_counterexample:
  "isDetectorReady (demo_detector True DOUBLE_SUPPORT RIGHT) \<and>
   getPhase (demo_detector True DOUBLE_SUPPORT RIGHT) = DOUBLE_SUPPORT \<and>
   getLeadingLeg (demo_detector True DOUBLE_SUPPORT RIGHT) = RIGHT \<and>
   point (right (fst (solve demo_model (demo_detector True DOUBLE_SUPPORT RIGHT) demo_engine
       demo_input demo_locals))) \<noteq>
   getLocationInGround demo_model (solve_state demo_model demo_engine demo_input)
     (toeStationR demo_model (parameters demo_engine))"
  by (simp add: solve_defs computeReactionPoint_def rotation_keeps demo_detector_simps
      demo_stations demo_engine_simps)

text \<open>
  Claim C3. In double support with no leading leg reported, the code writes the three
  lines to \<open>cerr\<close> and returns; the force, moment and centre of pressure it returns for the
  two legs are what the six locals held, not the zero vectors the output was given first.
\<close>

theorem invalid_leading_leg_outputs:
  assumes "isDetectorReady det" and "getPhase det = DOUBLE_SUPPORT"
    and "getLeadingLeg det = LeadingLeg_INVALID"
  shows "fst (solve M det E input locals) =
           \<lparr>Output_t = Input_t input,
            right = \<lparr>point = rightPoint locals, force = rightReactionForce locals,
                     torque = rightReactionMoment locals\<rparr>,
            left = \<lparr>point = leftPoint locals, force = leftReactionForce locals,
                    torque = leftReactionMoment locals\<rparr>\<rparr> \<and>
         snd (snd (solve M det E input locals)) =
           [''STA: invalid LeadingLeg state!'', ''STA: invalid LeadingLeg state!'',
            ''CoP: invalid LeadingLeg state!'']"
  using assms by (simp add: solve_invalid_leading_leg)

theorem invalid_leading_leg_outputs_witness:
  "isDetectorReady (demo_detector True DOUBLE_SUPPORT LeadingLeg_INVALID) \<and>
   getPhase (demo_detector True DOUBLE_SUPPORT LeadingLeg_INVALID) = DOUBLE_SUPPORT \<and>
   getLeadingLeg (demo_detector True DOUBLE_SUPPORT LeadingLeg_INVALID) = LeadingLeg_INVALID \<and>
   fst (solve demo_model (demo_detector True DOUBLE_SUPPORT LeadingLeg_INVALID) demo_engine
          demo_input demo_locals) =
     \<lparr>Output_t = 1,
      right = \<lparr>point = Vec3 2 2 2, force = Vec3 1 2 3, torque = Vec3 7 8 9\<rparr>,
      left = \<lparr>point = Vec3 3 3 3, force = Vec3 4 5 6, torque = Vec3 1 1 1\<rparr>\<rparr>"
  using invalid_leading_leg_outputs [of "demo_detector True DOUBLE_SUPPORT LeadingLeg_INVALID"
      demo_model demo_engine demo_input demo_locals]
  by (simp add: demo_detector_simps demo_input_def demo_locals_def)


subsection \<open>Single support\<close>

text \<open>
  Claim C4. In a call of \<open>solve\<close> whose detector is ready, in left swing the right leg's
  force and moment are the rotated total reaction force and moment and the left leg's are
  the zero vector; in right swing the same holds with the legs exchanged.
\<close>

theorem swing_attribution:
  assumes "isDetectorReady det"
  shows "(getPhase det = LEFT_SWING \<longrightarrow>
            force (right (fst (solve M det E input locals))) = solve_totalReactionForce M E input \<and>
            torque (right (fst (solve M det E input locals))) = solve_totalReactionMoment M E input \<and>
            force (left (fst (solve M det E input locals))) = Vec3 0 0 0 \<and>
            torque (left (fst (solve M det E input locals))) = Vec3 0 0 0) \<and>
         (getPhase det = RIGHT_SWING \<longrightarrow>
            force (left (fst (solve M det E input locals))) = solve_totalReactionForce M E input \<and>
            torque (left (fst (solve M det E input locals))) = solve_totalReactionMoment M E input \<and>
            force (right (fst (solve M det E input locals))) = Vec3 0 0 0 \<and>
            torque (right (fst (solve M det E input locals))) = Vec3 0 0 0)"
  using assms by (simp add: solve_defs seperateReactionComponents_def)

theorem swing_attribution_witness:
  "(isDetectorReady (demo_detector True LEFT_SWING LEFT) \<and>
    getPhase (demo_detector True LEFT_SWING LEFT) = LEFT_SWING \<and>
    force (right (fst (solve demo_model (demo_detector True LEFT_SWING LEFT) demo_engine
       demo_input demo_locals))) = Vec3 10 100 0 \<and>
    torque (right (fst (solve demo_model (demo_detector True LEFT_SWING LEFT) demo_engine
       demo_input demo_locals))) = Vec3 0 0 1 \<and>
    force (left (fst (solve demo_model (demo_detector True LEFT_SWING LEFT) demo_engine
       demo_input demo_locals))) = Vec3 0 0 0 \<and>
    torque (left (fst (solve demo_model (demo_detector True LEFT_SWING LEFT) demo_engine
       demo_input demo_locals))) = Vec3 0 0 0) \<and>
   (isDetectorReady (demo_detector True RIGHT_SWING RIGHT) \<and>
    getPhase (demo_detector True RIGHT_SWING RIGHT) = RIGHT_SWING \<and>
    force (left (fst (solve demo_model (demo_detector True RIGHT_SWING RIGHT) demo_engine
       demo_input demo_locals))) = Vec3 10 100 0 \<and>
    torque (left (fst (solve demo_model (demo_detector True RIGHT_SWING RIGHT) demo_engine
       demo_input demo_locals))) = Vec3 0 0 1 \<and>
    force (right (fst (solve demo_model (demo_detector True RIGHT_SWING RIGHT) demo_engine
       demo_input demo_locals))) = Vec3 0 0 0 \<and>
    torque (right (fst (solve demo_model (demo_detector True RIGHT_SWING RIGHT) demo_engine
       demo_input demo_locals))) = Vec3 0 0 0)"
  using swing_attribution [of "demo_detector True LEFT_SWING LEFT" demo_model demo_engine
      demo_input demo_locals]
    swing_attribution [of "demo_detector True RIGHT_SWING RIGHT" demo_model demo_engine
      demo_input demo_locals]
  by (simp add: demo_detector_simps solve_totalReactionForce_def solve_totalReactionMoment_def
      demo_totalReaction)

text \<open>
  Claim C5. In a call of \<open>solve\<close> whose detector is ready, in single support, the centre of
  pressure of the stance leg is its heel station in ground plus \<open>scale \<cdot> d\<close>, where \<open>d\<close> is
  the toe station minus the heel station in ground, \<open>t\<close> the time since the last toe-off,
  \<open>\<omega> = 2\<pi>/Tss\<close> and \<open>scale = clip(-2/(3\<pi>) (sin(\<omega>t) - sin(2\<omega>t)/8 - (3/4)\<omega>t), 0, 1)\<close>; the
  centre of pressure of the leg in swing is the zero vector.
\<close>

theorem single_support_cop:
  fixes M :: "'s Model" and det E input locals
  defines "out \<equiv> fst (solve M det E input locals)"
    and "s \<equiv> solve_state M E input"
    and "t \<equiv> Input_t input - getToeOffTime det"
    and "\<omega> \<equiv> 2 * pi / getSingleSupportDuration det"
  defines "progress \<equiv>
      clip (- 2 / (3 * pi) * (sin (\<omega> * t) - sin (2 * \<omega> * t) / 8 - 3 / 4 * \<omega> * t)) 0 1"
  assumes ready: "isDetectorReady det"
  shows "(getPhase det = LEFT_SWING \<longrightarrow>
            point (right out) =
              getLocationInGround M s (heelStationR M (parameters E)) +
              smul progress (getLocationInGround M s (toeStationR M (parameters E)) -
                             getLocationInGround M s (heelStationR M (parameters E))) \<and>
            point (left out) = Vec3 0 0 0) \<and>
         (getPhase det = RIGHT_SWING \<longrightarrow>
            point (left out) =
              getLocationInGround M s (heelStationL M (parameters E)) +
              smul progress (getLocationInGround M s (toeStationL M (parameters E)) -
                             getLocationInGround M s (heelStationL M (parameters E))) \<and>
            point (right out) = Vec3 0 0 0)"
proof -
  have p: "progress = copScale (getSingleSupportDuration det) (Input_t input - getToeOffTime det)"
    unfolding progress_def \<omega>_def t_def by (simp only: copScale_def Let_def)
  show ?thesis
    unfolding p unfolding out_def s_def
    by (simp add: solve_ready_points [OF ready] computeReactionPoint_def copPosition_def Let_def)
qed

theorem single_support_cop_witness:
  "(isDetectorReady (demo_detector True LEFT_SWING LEFT) \<and>
    getPhase (demo_detector True LEFT_SWING LEFT) = LEFT_SWING \<and>
    point (right (fst (solve demo_model (demo_detector True LEFT_SWING LEFT) demo_engine
       demo_input demo_locals))) = Vec3 1 0 1 \<and>
    point (left (fst (solve demo_model (demo_detector True LEFT_SWING LEFT) demo_engine
       demo_input demo_locals))) = Vec3 0 0 0) \<and>
   (isDetectorReady (demo_detector True RIGHT_SWING RIGHT) \<and>
    getPhase (demo_detector True RIGHT_SWING RIGHT) = RIGHT_SWING \<and>
    point (left (fst (solve demo_model (demo_detector True RIGHT_SWING RIGHT) demo_engine
       demo_input demo_locals))) = Vec3 1 0 (- 1) \<and>
    point (right (fst (solve demo_model (demo_detector True RIGHT_SWING RIGHT) demo_engine
       demo_input demo_locals))) = Vec3 0 0 0)"
  using single_support_cop [of "demo_detector True LEFT_SWING LEFT" demo_model demo_engine
      demo_input demo_locals]
    single_support_cop [of "demo_detector True RIGHT_SWING RIGHT" demo_model demo_engine
      demo_input demo_locals]
  by (simp add: demo_detector_simps demo_stations demo_engine_simps demo_input_def clip_def
      plus_Vec3_def minus_Vec3_def smul_def)


subsection \<open>The transition functions\<close>

text \<open>
  Claim C6. For a positive double-support duration \<open>Tds\<close>, the transition function is
  exactly 1 at elapsed time 0, so the trailing leg's component is there the anchored
  heel-strike value: in \<open>seperateReactionComponents\<close> for any anchor, and in a call of
  \<open>solve\<close> at the time of the heel strike for the anchor that this call latches. As the
  elapsed time tends to infinity the transition function tends to 0, and with it the
  trailing leg's component on each of the three axes.
\<close>

theorem transition_boundary:
  fixes det :: GaitPhaseDetector and total atThs r0 l0 :: Vec3
    and M :: "'s Model" and E input locals
  defines "f \<equiv> reactionComponentTransition (getDoubleSupportDuration det)"
  defines "trailing \<equiv> \<lambda>t. (if getLeadingLeg det = RIGHT
      then fst (snd (seperateReactionComponents det t total atThs f f f r0 l0))
      else fst (seperateReactionComponents det t total atThs f f f r0 l0))"
  defines "out \<equiv> fst (solve M det E input locals)"
    and "E' \<equiv> fst (snd (solve M det E input locals))"
  assumes pos: "0 < getDoubleSupportDuration det"
    and ds: "getPhase det = DOUBLE_SUPPORT"
    and leg: "getLeadingLeg det = RIGHT \<or> getLeadingLeg det = LEFT"
  shows "f 0 = 1 \<and> trailing 0 = atThs \<and>
         (isDetectorReady det \<and> Input_t input = getHeelStrikeTime det \<longrightarrow>
            totalForceAtThs E' = solve_totalReactionForce M E input \<and>
            totalMomentAtThs E' = solve_totalReactionMoment M E input \<and>
            (if getLeadingLeg det = RIGHT then force (left out) else force (right out)) =
              totalForceAtThs E' \<and>
            (if getLeadingLeg det = RIGHT then torque (left out) else torque (right out)) =
              totalMomentAtThs E') \<and>
         (f \<longlongrightarrow> 0) at_top \<and>
         ((\<lambda>t. vx (trailing t)) \<longlongrightarrow> 0) at_top \<and>
         ((\<lambda>t. vy (trailing t)) \<longlongrightarrow> 0) at_top \<and>
         ((\<lambda>t. vz (trailing t)) \<longlongrightarrow> 0) at_top"
proof -
  have f0: "f 0 = 1" using pos by (simp add: f_def transition_at_0)
  have lim: "(f \<longlongrightarrow> 0) at_top" unfolding f_def using pos by (rule transition_tendsto_0)
  have tr: "trailing t = Vec3 (vx atThs * f t) (vy atThs * f t) (vz atThs * f t)" for t
    using ds leg by (auto simp add: trailing_def seperateReactionComponents_def Let_def)
  have t0: "trailing 0 = atThs" by (cases atThs) (simp add: tr f0)
  have ax: "((\<lambda>t. c * f t) \<longlongrightarrow> 0) at_top" for c
    using tendsto_mult_left [OF lim, of c] by simp
  have nz: "getDoubleSupportDuration det \<noteq> 0" using pos by simp
  have hs: "totalForceAtThs E' = solve_totalReactionForce M E input \<and>
            totalMomentAtThs E' = solve_totalReactionMoment M E input \<and>
            (if getLeadingLeg det = RIGHT then force (left out) else force (right out)) =
              totalForceAtThs E' \<and>
            (if getLeadingLeg det = RIGHT then torque (left out) else torque (right out)) =
              totalMomentAtThs E'"
    if r: "isDetectorReady det" and h: "Input_t input = getHeelStrikeTime det"
    using leg solve_latch [OF r h, of M E locals]
      solve_trailing_at_heel_strike [OF r h ds nz, of M E locals]
    unfolding out_def E'_def by auto
  show ?thesis using f0 t0 lim ax hs by (simp add: tr)
qed

theorem transition_boundary_witness:
  "0 < getDoubleSupportDuration (demo_detector True DOUBLE_SUPPORT RIGHT) \<and>
   getPhase (demo_detector True DOUBLE_SUPPORT RIGHT) = DOUBLE_SUPPORT \<and>
   getLeadingLeg (demo_detector True DOUBLE_SUPPORT RIGHT) = RIGHT \<and>
   isDetectorReady (demo_detector True DOUBLE_SUPPORT RIGHT) \<and>
   Input_t demo_input = getHeelStrikeTime (demo_detector True DOUBLE_SUPPORT RIGHT) \<and>
   reactionComponentTransition (1 / 5) 0 = 1 \<and>
   totalForceAtThs (fst (snd (solve demo_model (demo_detector True DOUBLE_SUPPORT RIGHT)
      demo_engine demo_input demo_locals))) = Vec3 10 100 0 \<and>
   force (left (fst (solve demo_model (demo_detector True DOUBLE_SUPPORT RIGHT)
      demo_engine demo_input demo_locals))) = Vec3 10 100 0 \<and>
   (reactionComponentTransition (1 / 5) \<longlongrightarrow> 0) at_top"
proof -
  have t: "Input_t demo_input = 1" by (simp add: demo_input_def)
  show ?thesis
    using transition_boundary [where det = "demo_detector True DOUBLE_SUPPORT RIGHT"
        and total = "Vec3 10 100 0" and atThs = "Vec3 5 50 0" and ?r0.0 = "Vec3 0 0 0"
        and ?l0.0 = "Vec3 0 0 0"
        and M = demo_model and E = demo_engine and input = demo_input and locals = demo_locals]
    by (simp add: demo_detector_simps t solve_totalReactionForce_def
        solve_totalReactionMoment_def demo_totalReaction)
qed

text \<open>
  Claim C7. Whatever the elapsed time and whatever the values of \<open>Tds\<close> and \<open>Tss\<close>, the
  double-support transition function and the single-support progress factor of the centre
  of pressure both return a value between 0 and 1.
\<close>

theorem transition_outputs_clamped:
  "0 \<le> reactionComponentTransition tds t \<and> reactionComponentTransition tds t \<le> 1 \<and>
   0 \<le> copScale tss t \<and> copScale tss t \<le> 1"
  by (simp add: reactionComponentTransition_def copScale_def Let_def clip_unit_interval)


subsection \<open>The detector is not ready\<close>

text \<open>
  Claim C8. A call of \<open>solve\<close> whose detector is not ready returns the input's timestamp
  and the zero vector for the force, the torque and the centre of pressure of both legs.
\<close>

theorem solve_not_ready_zero_output:
  assumes "\<not> isDetectorReady det"
  shows "fst (solve M det E input locals) =
           \<lparr>Output_t = Input_t input,
            right = \<lparr>point = Vec3 0 0 0, force = Vec3 0 0 0, torque = Vec3 0 0 0\<rparr>,
            left = \<lparr>point = Vec3 0 0 0, force = Vec3 0 0 0, torque = Vec3 0 0 0\<rparr>\<rparr>"
  using assms by (simp add: solve_def)

theorem solve_not_ready_zero_output_witness:
  "\<not> isDetectorReady (demo_detector False LEFT_SWING LEFT) \<and>
   fst (solve demo_model (demo_detector False LEFT_SWING LEFT) demo_engine demo_input demo_locals) =
     \<lparr>Output_t = 1,
      right = \<lparr>point = Vec3 0 0 0, force = Vec3 0 0 0, torque = Vec3 0 0 0\<rparr>,
      left = \<lparr>point = Vec3 0 0 0, force = Vec3 0 0 0, torque = Vec3 0 0 0\<rparr>\<rparr>"
proof -
  have h: "\<not> isDetectorReady (demo_detector False LEFT_SWING LEFT)"
    by (simp add: demo_detector_def)
  show ?thesis
    using h solve_not_ready_zero_output [OF h, of demo_model demo_engine demo_input demo_locals]
    by (simp add: demo_input_def)
qed

text \<open>
  Claim C10. A call of \<open>solve\<close> whose detector is not ready leaves the engine as it was:
  the heading buffer, the two heel-strike anchors, \<open>Tds\<close>, \<open>Tss\<close> and the model state are
  those of before the call (and nothing is written to \<open>cerr\<close>).
\<close>

theorem solve_not_ready_engine_unchanged:
  assumes "\<not> isDetectorReady det"
  shows "fst (snd (solve M det E input locals)) = E \<and>
         gaitDirectionBuffer (fst (snd (solve M det E input locals))) = gaitDirectionBuffer E \<and>
         totalForceAtThs (fst (snd (solve M det E input locals))) = totalForceAtThs E \<and>
         totalMomentAtThs (fst (snd (solve M det E input locals))) = totalMomentAtThs E \<and>
         Tds (fst (snd (solve M det E input locals))) = Tds E \<and>
         Tss (fst (snd (solve M det E input locals))) = Tss E \<and>
         state (fst (snd (solve M det E input locals))) = state E \<and>
         snd (snd (solve M det E input locals)) = []"
  using assms by (simp add: solve_def)

theorem solve_not_ready_engine_unchanged_witness:
  "\<not> isDetectorReady (demo_detector False DOUBLE_SUPPORT RIGHT) \<and>
   fst (snd (solve demo_model (demo_detector False DOUBLE_SUPPORT RIGHT) demo_engine demo_input
     demo_locals)) = demo_engine"
proof -
  have h: "\<not> isDetectorReady (demo_detector False DOUBLE_SUPPORT RIGHT)"
    by (simp add: demo_detector_def)
  show ?thesis
    using h solve_not_ready_engine_unchanged [OF h, of demo_model demo_engine demo_input demo_locals]
    by simp
qed


subsection \<open>Method selection\<close>

lemma length_cases: "length upper_case = length lower_case"
  by (simp add: upper_case_def lower_case_def)

lemma distinct_upper: "distinct upper_case"
  by (simp add: upper_case_def)

lemma upper_lower_disjoint: "c \<in> set upper_case \<Longrightarrow> c \<notin> set lower_case"
  by (auto simp add: upper_case_def lower_case_def)

lemma tolower_pair: "(a, b) \<in> set (zip upper_case lower_case) \<Longrightarrow> tolower a = b"
proof -
  assume h: "(a, b) \<in> set (zip upper_case lower_case)"
  have "distinct (map fst (zip upper_case lower_case))"
    using distinct_upper length_cases by simp
  then have "map_of (zip upper_case lower_case) a = Some b"
    using h by (rule map_of_is_SomeI)
  then show ?thesis by (simp add: tolower_def)
qed

lemma tolower_other: "a \<notin> set upper_case \<Longrightarrow> tolower a = a"
  using map_of_zip_is_None [OF length_cases, of a] by (simp add: tolower_def)

lemma upper_has_pair: "a \<in> set upper_case \<Longrightarrow> (a, tolower a) \<in> set (zip upper_case lower_case)"
proof -
  assume "a \<in> set upper_case"
  then obtain y where y: "map_of (zip upper_case lower_case) a = Some y"
    using map_of_zip_is_Some [OF length_cases, of a] by blast
  then have "(a, y) \<in> set (zip upper_case lower_case)" by (rule map_of_SomeD)
  moreover have "tolower a = y" using y by (simp add: tolower_def)
  ultimately show ?thesis by simp
qed

lemma tolower_fixed_not_upper: "tolower b = b \<Longrightarrow> b \<notin> set upper_case"
proof
  assume fx: "tolower b = b" and up: "b \<in> set upper_case"
  from upper_has_pair [OF up] have "tolower b \<in> set lower_case"
    by (auto dest: set_zip_rightD)
  with fx upper_lower_disjoint [OF up] show False by simp
qed

lemma same_letter_lower: "tolower b = b \<Longrightarrow> same_letter a b = (tolower a = b)"
proof -
  assume fx: "tolower b = b"
  have nb: "b \<notin> set upper_case" using fx by (rule tolower_fixed_not_upper)
  have n3: "(b, a) \<notin> set (zip upper_case lower_case)"
    using nb set_zip_leftD by fastforce
  show ?thesis
  proof (cases "a \<in> set upper_case")
    case True
    have ab: "a \<noteq> b" using True nb by blast
    have "((a, b) \<in> set (zip upper_case lower_case)) = (tolower a = b)"
      using upper_has_pair [OF True] tolower_pair [of a b] by blast
    then show ?thesis using n3 ab unfolding same_letter_def by blast
  next
    case False
    have "(a, b) \<notin> set (zip upper_case lower_case)"
      using False set_zip_leftD by fastforce
    then show ?thesis using n3 tolower_other [OF False] unfolding same_letter_def by metis
  qed
qed

lemma equal_ignoring_case_lower:
  "toLower n = n \<Longrightarrow> equal_ignoring_case s n = (toLower s = n)"
proof (induction n arbitrary: s)
  case Nil
  then show ?case by (simp add: equal_ignoring_case_def toLower_def)
next
  case (Cons b n)
  from Cons.prems have b: "tolower b = b" and n: "toLower n = n"
    by (simp_all add: toLower_def)
  show ?case
  proof (cases s)
    case Nil
    then show ?thesis by (simp add: equal_ignoring_case_def toLower_def)
  next
    case (Cons a s')
    have "equal_ignoring_case s' n = (toLower s' = n)" using n by (rule Cons.IH)
    then show ?thesis
      using Cons same_letter_lower [OF b, of a]
      by (simp add: equal_ignoring_case_def toLower_def)
  qed
qed

lemma lower_names:
  "toLower ''newtoneuler'' = ''newtoneuler''" "toLower ''newton-euler'' = ''newton-euler''"
  "toLower ''newton_euler'' = ''newton_euler''" "toLower ''ne'' = ''ne''"
  "toLower ''inversedynamics'' = ''inversedynamics''"
  "toLower ''inverse-dynamics'' = ''inverse-dynamics''"
  "toLower ''inverse_dynamics'' = ''inverse_dynamics''" "toLower ''id'' = ''id''"
  by (simp_all add: toLower_def tolower_def upper_case_def lower_case_def)

text \<open>
  Claim C9. \<open>selectMethod\<close> resolves a name that is, up to case, one of \<open>newtoneuler\<close>,
  \<open>newton-euler\<close>, \<open>newton_euler\<close>, \<open>ne\<close> to the Newton-Euler method, one that is, up to
  case, one of \<open>inversedynamics\<close>, \<open>inverse-dynamics\<close>, \<open>inverse_dynamics\<close>, \<open>id\<close> to the
  inverse-dynamics method, and throws for every other name.
\<close>

theorem selectMethod_resolves:
  "((equal_ignoring_case s ''newtoneuler'' \<or> equal_ignoring_case s ''newton-euler'' \<or>
     equal_ignoring_case s ''newton_euler'' \<or> equal_ignoring_case s ''ne'')
      \<longrightarrow> selectMethod s = Inr NewtonEuler) \<and>
   ((equal_ignoring_case s ''inversedynamics'' \<or> equal_ignoring_case s ''inverse-dynamics'' \<or>
     equal_ignoring_case s ''inverse_dynamics'' \<or> equal_ignoring_case s ''id'')
      \<longrightarrow> selectMethod s = Inr InverseDynamics) \<and>
   (\<not> (equal_ignoring_case s ''newtoneuler'' \<or> equal_ignoring_case s ''newton-euler'' \<or>
     equal_ignoring_case s ''newton_euler'' \<or> equal_ignoring_case s ''ne'' \<or>
     equal_ignoring_case s ''inversedynamics'' \<or> equal_ignoring_case s ''inverse-dynamics'' \<or>
     equal_ignoring_case s ''inverse_dynamics'' \<or> equal_ignoring_case s ''id'')
      \<longrightarrow> selectMethod s = Inl (Exception ''Wrong input method. Select appropriate input name.''))"
  unfolding equal_ignoring_case_lower [OF lower_names(1)] equal_ignoring_case_lower [OF lower_names(2)]
    equal_ignoring_case_lower [OF lower_names(3)] equal_ignoring_case_lower [OF lower_names(4)]
    equal_ignoring_case_lower [OF lower_names(5)] equal_ignoring_case_lower [OF lower_names(6)]
    equal_ignoring_case_lower [OF lower_names(7)] equal_ignoring_case_lower [OF lower_names(8)]
  by (auto simp add: selectMethod_def validNENames_def validIDNames_def)

theorem selectMethod_resolves_witness:
  "(equal_ignoring_case ''Newton-Euler'' ''newton-euler'' \<and>
      selectMethod ''Newton-Euler'' = Inr NewtonEuler) \<and>
   (equal_ignoring_case ''NE'' ''ne'' \<and> selectMethod ''NE'' = Inr NewtonEuler) \<and>
   (equal_ignoring_case ''id'' ''id'' \<and> selectMethod ''id'' = Inr InverseDynamics) \<and>
   selectMethod ''bogus'' = Inl (Exception ''Wrong input method. Select appropriate input name.'')"
proof -
  have a: "equal_ignoring_case ''Newton-Euler'' ''newton-euler''"
    by (simp add: equal_ignoring_case_def same_letter_def upper_case_def lower_case_def)
  have b: "equal_ignoring_case ''NE'' ''ne''"
    by (simp add: equal_ignoring_case_def same_letter_def upper_case_def lower_case_def)
  have c: "equal_ignoring_case ''id'' ''id''"
    by (simp add: equal_ignoring_case_def same_letter_def upper_case_def lower_case_def)
  have d: "\<not> (equal_ignoring_case ''bogus'' ''newtoneuler'' \<or>
     equal_ignoring_case ''bogus'' ''newton-euler'' \<or>
     equal_ignoring_case ''bogus'' ''newton_euler'' \<or> equal_ignoring_case ''bogus'' ''ne'' \<or>
     equal_ignoring_case ''bogus'' ''inversedynamics'' \<or>
     equal_ignoring_case ''bogus'' ''inverse-dynamics'' \<or>
     equal_ignoring_case ''bogus'' ''inverse_dynamics'' \<or> equal_ignoring_case ''bogus'' ''id'')"
    by (simp add: equal_ignoring_case_def)
  have r1: "selectMethod ''Newton-Euler'' = Inr NewtonEuler"
    by (rule selectMethod_resolves [THEN conjunct1, THEN mp, OF disjI2 [OF disjI1 [OF a]]])
  have r2: "selectMethod ''NE'' = Inr NewtonEuler"
    by (rule selectMethod_resolves [THEN conjunct1, THEN mp,
          OF disjI2 [OF disjI2 [OF disjI2 [OF b]]]])
  have r3: "selectMethod ''id'' = Inr InverseDynamics"
    by (rule selectMethod_resolves [THEN conjunct2, THEN conjunct1, THEN mp,
          OF disjI2 [OF disjI2 [OF disjI2 [OF c]]]])
  have r4: "selectMethod ''bogus'' =
      Inl (Exception ''Wrong input method. Select appropriate input name.'')"
    by (rule selectMethod_resolves [THEN conjunct2, THEN conjunct2, THEN mp, OF d])
  show ?thesis
    by (rule conjI [OF conjI [OF a r1] conjI [OF conjI [OF b r2] conjI [OF conjI [OF c r3] r4]]])
qed

end
